theory Spec2Isabelle
  imports Complex_Main "HOL-Library.Product_Lexorder" "HOL-Library.Multiset"
begin

section \<open>Python values, objects and errors\<close>

text \<open>
  The layer classes of \<^verbatim>\<open>tensorx/layers.py\<close> are ordinary Python objects: a
  constructor stores attributes under names, and a later constructor reads them back by
  name. An object is therefore modelled as its attribute dictionary, a map from attribute
  names to values, so that reading a name nobody stored is the \<^verbatim>\<open>AttributeError\<close> it is
  in Python. Tensor handles are symbolic graph nodes: an operator name and its arguments.
  Floats are modelled by the rational they denote.
\<close>

datatype dtype = Float32 | Int32 | Int64

datatype pyval =
    PyNone
  | PyInt int
  | PyFloat rat
  | PyStr string
  | PyList "pyval list"
  | PyDType dtype
  | PyOp string "pyval list"

datatype error =
    PyException string
  | ValueError
  | TypeError
  | AttributeError string
  | IndexError
  | InvalidArgumentError

type_synonym obj = "string \<rightharpoonup> pyval"

definition err_bind :: "error + 'a \<Rightarrow> ('a \<Rightarrow> error + 'b) \<Rightarrow> error + 'b" where
  "err_bind m f = (case m of Inl e \<Rightarrow> Inl e | Inr v \<Rightarrow> f v)"

text \<open>\<^verbatim>\<open>o.name\<close>, and \<^verbatim>\<open>hasattr(o, name)\<close>.\<close>

definition py_getattr :: "obj \<Rightarrow> string \<Rightarrow> error + pyval" where
  "py_getattr ob n = (case ob n of None \<Rightarrow> Inl (AttributeError n) | Some v \<Rightarrow> Inr v)"

definition hasattr :: "obj \<Rightarrow> string \<Rightarrow> bool" where
  "hasattr ob n = (ob n \<noteq> None)"

text \<open>
  \<^verbatim>\<open>getattr(o, name, default=None)\<close>: the builtin \<^verbatim>\<open>getattr\<close> takes positional
  arguments only, so a call that passes \<^verbatim>\<open>default\<close> by keyword raises
  \<^verbatim>\<open>TypeError: getattr() takes no keyword arguments\<close> whatever the object holds.
\<close>

definition getattr_default_kw :: "obj \<Rightarrow> string \<Rightarrow> pyval \<Rightarrow> error + pyval" where
  "getattr_default_kw ob n d = Inl TypeError"

text \<open>\<^verbatim>\<open>v[i]\<close> for a list (negative indices count from the end); other values here
  are not subscriptable.\<close>

definition py_getitem :: "pyval \<Rightarrow> int \<Rightarrow> error + pyval" where
  "py_getitem v i =
     (case v of
        PyList xs \<Rightarrow>
          if 0 \<le> i \<and> i < int (length xs) then Inr (xs ! nat i)
          else if i < 0 \<and> - int (length xs) \<le> i then Inr (xs ! nat (int (length xs) + i))
          else Inl IndexError
      | _ \<Rightarrow> Inl TypeError)"

text \<open>
  \<^verbatim>\<open>a == b\<close> and \<^verbatim>\<open>a != b\<close>: numbers compare by value, also an integer with a
  float; lists compare element by element; a data type of the framework equals the
  string that names it; \<^verbatim>\<open>None\<close>, strings and data types are equal to themselves
  only. Two tensor handles are compared by the graph nodes they stand for.
\<close>

definition dtype_name :: "dtype \<Rightarrow> string" where
  "dtype_name d = (case d of Float32 \<Rightarrow> ''float32'' | Int32 \<Rightarrow> ''int32'' | Int64 \<Rightarrow> ''int64'')"

fun py_eq :: "pyval \<Rightarrow> pyval \<Rightarrow> bool" where
  "py_eq (PyInt a) (PyFloat b) = (of_int a = b)"
| "py_eq (PyFloat a) (PyInt b) = (a = of_int b)"
| "py_eq (PyList (x # xs)) (PyList (y # ys)) = (py_eq x y \<and> py_eq (PyList xs) (PyList ys))"
| "py_eq (PyDType d) (PyStr s) = (s = dtype_name d)"
| "py_eq (PyStr s) (PyDType d) = (s = dtype_name d)"
| "py_eq a b = (a = b)"

definition py_ne :: "pyval \<Rightarrow> pyval \<Rightarrow> bool" where
  "py_ne a b = (\<not> py_eq a b)"

text \<open>
  \<^verbatim>\<open>a < b\<close>: between numbers by value, between strings and between lists in
  lexicographic order (a list comparison looks for the first pair of unequal elements
  and compares them); \<^verbatim>\<open>TypeError\<close> otherwise, as for \<^verbatim>\<open>None < 3\<close>.
\<close>

fun str_lt :: "string \<Rightarrow> string \<Rightarrow> bool" where
  "str_lt [] [] = False"
| "str_lt [] (d # ds) = True"
| "str_lt (c # cs) [] = False"
| "str_lt (c # cs) (d # ds) =
     ((of_char c :: nat) < of_char d \<or> (c = d \<and> str_lt cs ds))"

fun py_lt :: "pyval \<Rightarrow> pyval \<Rightarrow> error + bool" where
  "py_lt (PyInt a) (PyInt b) = Inr (a < b)"
| "py_lt (PyInt a) (PyFloat b) = Inr (of_int a < b)"
| "py_lt (PyFloat a) (PyInt b) = Inr (a < of_int b)"
| "py_lt (PyFloat a) (PyFloat b) = Inr (a < b)"
| "py_lt (PyStr a) (PyStr b) = Inr (str_lt a b)"
| "py_lt (PyList []) (PyList []) = Inr False"
| "py_lt (PyList []) (PyList (y # ys)) = Inr True"
| "py_lt (PyList (x # xs)) (PyList []) = Inr False"
| "py_lt (PyList (x # xs)) (PyList (y # ys)) =
     (if py_eq x y then py_lt (PyList xs) (PyList ys) else py_lt x y)"
| "py_lt _ _ = Inl TypeError"

text \<open>
  A number is an integer or a float, with the value \<open>num_val\<close>; a dimension of a
  shape is \<^verbatim>\<open>None\<close> or a number.
\<close>

datatype number = IntNum int | FloatNum rat

definition num_val :: "number \<Rightarrow> rat" where
  "num_val x = (case x of IntNum i \<Rightarrow> of_int i | FloatNum q \<Rightarrow> q)"

definition pynum :: "number \<Rightarrow> pyval" where
  "pynum x = (case x of IntNum i \<Rightarrow> PyInt i | FloatNum q \<Rightarrow> PyFloat q)"

definition dim :: "number option \<Rightarrow> pyval" where
  "dim d = (case d of None \<Rightarrow> PyNone | Some x \<Rightarrow> pynum x)"

text \<open>\<^verbatim>\<open>name + "_suffix"\<close> on strings.\<close>

definition py_add_str :: "pyval \<Rightarrow> string \<Rightarrow> error + pyval" where
  "py_add_str v s = (case v of PyStr t \<Rightarrow> Inr (PyStr (t @ s)) | _ \<Rightarrow> Inl TypeError)"

text \<open>\<^verbatim>\<open>int(x)\<close> on a float truncates towards zero.\<close>

definition py_int :: "rat \<Rightarrow> int" where
  "py_int q = (if 0 \<le> q then \<lfloor>q\<rfloor> else \<lceil>q\<rceil>)"

text \<open>\<^verbatim>\<open>int(n * amount)\<close> for a number \<^verbatim>\<open>n\<close> and a float \<^verbatim>\<open>amount\<close>.\<close>

definition py_int_mul :: "pyval \<Rightarrow> rat \<Rightarrow> error + int" where
  "py_int_mul v q =
     (case v of
        PyInt n \<Rightarrow> Inr (py_int (of_int n * q))
      | PyFloat r \<Rightarrow> Inr (py_int (r * q))
      | _ \<Rightarrow> Inl TypeError)"

subsection \<open>Framework operators used by the layers\<close>

text \<open>
  The framework converts every operand to a tensor and refuses \<^verbatim>\<open>None\<close>
  (\<^verbatim>\<open>ValueError: None values not supported\<close>); otherwise the operator adds a node to
  the graph.
\<close>

definition array_ops_shape :: "pyval \<Rightarrow> error + pyval" where
  "array_ops_shape t = (if t = PyNone then Inl ValueError else Inr (PyOp ''shape'' [t]))"

definition math_ops_add :: "pyval \<Rightarrow> pyval \<Rightarrow> error + pyval" where
  "math_ops_add a b =
     (if a = PyNone \<or> b = PyNone then Inl ValueError else Inr (PyOp ''add'' [a, b]))"

definition random_ops_random_normal :: "pyval \<Rightarrow> pyval \<Rightarrow> pyval \<Rightarrow> pyval \<Rightarrow> pyval \<Rightarrow> pyval" where
  "random_ops_random_normal shape mean stddev seed dt =
     PyOp ''random_normal'' [shape, mean, stddev, seed, dt]"

definition array_ops_placeholder :: "pyval \<Rightarrow> pyval \<Rightarrow> pyval \<Rightarrow> pyval" where
  "array_ops_placeholder dt shape name = PyOp ''placeholder'' [dt, shape, name]"

section \<open>The layer classes\<close>

text \<open>
  \<^verbatim>\<open>Layer.__init__(self, n_units, shape=None, dense_shape=None, dtype, name)\<close>.
  The constructor returns the attribute dictionary of the new object, or the exception
  it raised. The shape metadata is stored under the name \<^verbatim>\<open>dense_sape\<close>, as the source
  spells it in both branches.
\<close>

definition Layer_init :: "pyval \<Rightarrow> pyval \<Rightarrow> pyval \<Rightarrow> pyval \<Rightarrow> pyval \<Rightarrow> error + obj" where
  "Layer_init n_units shape dense_shape dt name =
     (let self0 = [''n_units'' \<mapsto> n_units, ''name'' \<mapsto> name, ''dtype'' \<mapsto> dt];
          self_shape = (if shape = PyNone then PyList [PyNone, n_units] else shape);
          self1 = self0(''shape'' \<mapsto> self_shape)
      in if dense_shape = PyNone
         then Inr (self1(''dense_sape'' \<mapsto> self_shape, ''y'' \<mapsto> PyNone))
         else
           err_bind (py_getitem dense_shape 1) (\<lambda>d1.
           err_bind (py_lt d1 n_units) (\<lambda>too_small.
             if too_small
             then Inl (PyException ''Shape mismatch: dense_shape[1] < n_units'')
             else
               err_bind (py_getitem dense_shape 0) (\<lambda>d0.
               err_bind (py_getitem self_shape 0) (\<lambda>s0.
                 if py_ne d0 s0
                 then Inl (PyException ''Shape mismatch: dense_shape[0] != self.shape[0]'')
                 else Inr (self1(''dense_sape'' \<mapsto> dense_shape, ''y'' \<mapsto> PyNone)))))))"

text \<open>
  \<^verbatim>\<open>Input.__init__(self, n_units, n_active=None, batch_size=None, dtype, name)\<close>.
\<close>

definition Input_init :: "pyval \<Rightarrow> pyval \<Rightarrow> pyval \<Rightarrow> pyval \<Rightarrow> pyval \<Rightarrow> error + obj" where
  "Input_init n_units n_active batch_size dt name =
     err_bind (if n_active \<noteq> PyNone
               then err_bind (py_lt n_active n_units) (\<lambda>lt. Inr (\<not> lt))
               else Inr False) (\<lambda>too_active.
       if too_active then Inl ValueError
       else
         let dense_shape = PyList [batch_size, n_units] in
         err_bind (if n_active \<noteq> PyNone
                   then (if dt \<noteq> PyDType Int64 then Inl TypeError
                         else Inr (PyList [batch_size, n_active]))
                   else Inr (PyList [batch_size, n_units])) (\<lambda>shape.
         err_bind (Layer_init n_units shape dense_shape dt name) (\<lambda>self.
         err_bind (py_getattr self ''dtype'') (\<lambda>sdt.
         err_bind (py_getattr self ''shape'') (\<lambda>sshape.
         err_bind (py_getattr self ''name'') (\<lambda>sname.
           Inr (self(''y'' \<mapsto> array_ops_placeholder sdt sshape sname))))))))"

text \<open>
  The call every wrapping layer starts with:
  \<^verbatim>\<open>super().__init__(layer.n_units, layer.shape, layer.dense_shape, layer.dtype,
  layer.name + suffix)\<close>, the arguments evaluated from left to right.
\<close>

definition wrap_init :: "obj \<Rightarrow> string \<Rightarrow> error + obj" where
  "wrap_init layer suffix =
     err_bind (py_getattr layer ''n_units'') (\<lambda>n_units.
     err_bind (py_getattr layer ''shape'') (\<lambda>shape.
     err_bind (py_getattr layer ''dense_shape'') (\<lambda>dense_shape.
     err_bind (py_getattr layer ''dtype'') (\<lambda>dt.
     err_bind (py_getattr layer ''name'') (\<lambda>name.
     err_bind (py_add_str name suffix) (\<lambda>new_name.
       Layer_init n_units shape dense_shape dt new_name))))))"

text \<open>
  \<^verbatim>\<open>ToSparse.__init__(self, layer)\<close>; \<^verbatim>\<open>to_sparse\<close> of \<^verbatim>\<open>tensorx.transform\<close>
  yields two tensor handles, kept symbolic.
\<close>

definition ToSparse_init :: "obj \<Rightarrow> error + obj" where
  "ToSparse_init layer =
     err_bind (wrap_init layer ''_sparse'') (\<lambda>self.
     err_bind (py_getattr layer ''y'') (\<lambda>y.
       Inr (self(''sp_indices'' \<mapsto> PyOp ''to_sparse_indices'' [y],
                 ''sp_values'' \<mapsto> PyOp ''to_sparse_values'' [y]))))"

text \<open>
  \<^verbatim>\<open>GaussianNoise.__init__(self, layer, noise_amount=0.1, stddev=0.2, seed=None)\<close>.
  In the noisy branch the source adds the noise to \<^verbatim>\<open>self.y\<close>, which
  \<^verbatim>\<open>Layer.__init__\<close> has just set.
\<close>

definition GaussianNoise_init :: "obj \<Rightarrow> rat \<Rightarrow> pyval \<Rightarrow> pyval \<Rightarrow> error + obj" where
  "GaussianNoise_init layer noise_amount stddev seed =
     err_bind (wrap_init layer ''_noise'') (\<lambda>self0.
       let self = self0(''noise_amount'' \<mapsto> PyFloat noise_amount,
                        ''stddev'' \<mapsto> stddev, ''seed'' \<mapsto> seed)
       in if noise_amount = 0
          then err_bind (py_getattr layer ''y'') (\<lambda>y. Inr (self(''y'' \<mapsto> y)))
          else
            err_bind (py_getattr layer ''y'') (\<lambda>layer_y.
            err_bind (array_ops_shape layer_y) (\<lambda>shp.
            err_bind (py_getattr self ''stddev'') (\<lambda>sd.
              let noise = random_ops_random_normal shp (PyFloat 0) sd seed (PyDType Float32) in
              err_bind (py_getattr self ''y'') (\<lambda>self_y.
              err_bind (math_ops_add self_y noise) (\<lambda>r.
                Inr (self(''y'' \<mapsto> r))))))))"

text \<open>
  \<^verbatim>\<open>SaltPepperNoise.__init__(self, layer, noise_amount=0.1, max_value=1,
  min_value=0, seed=None)\<close>. The two \<^verbatim>\<open>pass\<close> branches leave the object as it is.
\<close>

definition SaltPepperNoise_init :: "obj \<Rightarrow> rat \<Rightarrow> pyval \<Rightarrow> pyval \<Rightarrow> pyval \<Rightarrow> error + obj" where
  "SaltPepperNoise_init layer noise_amount max_value min_value seed =
     err_bind (wrap_init layer ''_noise'') (\<lambda>self0.
       let self = self0(''noise_amount'' \<mapsto> PyFloat noise_amount, ''seed'' \<mapsto> seed)
       in if noise_amount = 0
          then err_bind (py_getattr layer ''y'') (\<lambda>y. Inr (self(''y'' \<mapsto> y)))
          else
            err_bind (py_getattr layer ''n_units'') (\<lambda>n_units.
            err_bind (py_int_mul n_units noise_amount) (\<lambda>num_noise.
            err_bind (py_getattr self ''shape'') (\<lambda>sshape.
            err_bind (py_getitem sshape 0) (\<lambda>batch_size.
              if hasattr layer ''sp_indices''
              then
                err_bind (py_getattr layer ''sp_indices'') (\<lambda>indices.
                err_bind (getattr_default_kw layer ''sp_values'' PyNone) (\<lambda>vals.
                  Inr (self(''y'' \<mapsto> PyNone))))
              else Inr self)))))"

subsection \<open>Two concrete wrapped layers\<close>

text \<open>
  An object with every attribute the wrapping constructors read, \<^verbatim>\<open>dense_shape\<close>
  included (which no constructor of the library stores), and the same object carrying
  sparse indices as well.
\<close>

definition dense_layer :: obj where
  "dense_layer =
     [''n_units'' \<mapsto> PyInt 4, ''name'' \<mapsto> PyStr ''x'', ''dtype'' \<mapsto> PyDType Float32,
      ''shape'' \<mapsto> PyList [PyNone, PyInt 4], ''dense_shape'' \<mapsto> PyList [PyNone, PyInt 4],
      ''y'' \<mapsto> PyOp ''x'' []]"

definition sparse_layer :: obj where
  "sparse_layer =
     dense_layer(''sp_indices'' \<mapsto> PyOp ''ids'' [], ''sp_values'' \<mapsto> PyOp ''vals'' [])"

section \<open>The random sparse tensors\<close>

text \<open>
  \<^verbatim>\<open>tensorx/random.py\<close> composes operators of the framework. The model is of the
  values the tensors evaluate to: a matrix is the list of its rows, a sparse tensor the
  triple of its index pairs, its values and its dense shape. The values of a tensor
  are of a type \<open>'v\<close>, the values of its data type: the functions hand them on and
  never compute with them, and a constant given to a function is taken as a value of
  that type (how a Python number is converted into the data type is not modelled, and
  \<^verbatim>\<open>math_ops.cast\<close> to the data type the values already have changes nothing).
\<close>

record 'v sparse_tensor =
  st_indices :: "(int \<times> int) list"
  st_values :: "'v list"
  st_dense_shape :: "int list"

text \<open>The result of a sampling call: a vector of candidates, or a matrix of them, one
  row for each element of the batch.\<close>

datatype samples = Vec "int list" | Mat "int list list"

text \<open>An argument that is a Python integer, a tensor with a constant value, or a tensor
  without one (\<^verbatim>\<open>tensor_util.constant_value\<close> then gives \<^verbatim>\<open>None\<close>).\<close>

datatype scalar_arg = PyNum int | TensorConst int | TensorDyn

text \<open>
  The operators whose results are random, \<^verbatim>\<open>enum_row\<close> of
  \<^verbatim>\<open>tensorx.transform\<close> and the machine's product of a float and an integer (which
  rounds, and is taken to be finite) are parameters of the model. The random ones take
  and return the state \<open>'g\<close> of the generator, so that two calls may differ.
  \<^item> \<open>float_mul x m\<close>, the value of \<^verbatim>\<open>x * m\<close>
  \<^item> \<open>uniform_candidate_sampler g num_sampled unique range_max seed\<close>
  \<^item> \<open>random_normal g n mean stddev seed\<close>, for a vector of \<open>n\<close> values
  \<^item> \<open>random_shuffle g xs seed\<close>
\<close>

record ('g, 'v) framework =
  float_mul :: "rat \<Rightarrow> int \<Rightarrow> rat"
  uniform_candidate_sampler :: "'g \<Rightarrow> int \<Rightarrow> bool \<Rightarrow> int \<Rightarrow> int option \<Rightarrow> error + int list \<times> 'g"
  random_normal :: "'g \<Rightarrow> int \<Rightarrow> 'v \<Rightarrow> 'v \<Rightarrow> int option \<Rightarrow> error + 'v list \<times> 'g"
  random_shuffle :: "'g \<Rightarrow> 'v list \<Rightarrow> int option \<Rightarrow> 'v list \<times> 'g"
  enum_row :: "samples \<Rightarrow> (int \<times> int) list"

subsection \<open>Deterministic operators of the framework\<close>

text \<open>\<^verbatim>\<open>xs[i]\<close> on a Python list of integers or values.\<close>

definition list_getitem :: "'a list \<Rightarrow> int \<Rightarrow> error + 'a" where
  "list_getitem xs i =
     (if 0 \<le> i \<and> i < int (length xs) then Inr (xs ! nat i)
      else if i < 0 \<and> - int (length xs) \<le> i then Inr (xs ! nat (int (length xs) + i))
      else Inl IndexError)"

text \<open>\<^verbatim>\<open>tf.range(0, n)\<close>.\<close>

definition tf_range :: "int \<Rightarrow> int list" where
  "tf_range n = map int [0..<nat n]"

text \<open>\<^verbatim>\<open>tf.map_fn(fn, elems)\<close>: \<^verbatim>\<open>fn\<close> on each element in turn, the state of the
  generator handed on; the first failure ends it.\<close>

primrec map_fn :: "('e \<Rightarrow> 'g \<Rightarrow> error + 'a \<times> 'g) \<Rightarrow> 'e list \<Rightarrow> 'g \<Rightarrow> error + 'a list \<times> 'g" where
  "map_fn fn [] g = Inr ([], g)"
| "map_fn fn (e # es) g =
     err_bind (fn e g) (\<lambda>(x, g1).
     err_bind (map_fn fn es g1) (\<lambda>(xs, g2). Inr (x # xs, g2)))"

text \<open>\<^verbatim>\<open>array_ops.fill([a, b], v)\<close>: an \<open>a\<close> by \<open>b\<close> matrix of \<open>v\<close>; a negative
  dimension is refused.\<close>

definition array_ops_fill :: "int list \<Rightarrow> 'v \<Rightarrow> error + 'v list list" where
  "array_ops_fill dims v =
     (case dims of
        [a, b] \<Rightarrow> if a < 0 \<or> b < 0 then Inl InvalidArgumentError
                  else Inr (replicate (nat a) (replicate (nat b) v))
      | _ \<Rightarrow> Inl InvalidArgumentError)"

text \<open>\<^verbatim>\<open>array_ops.concat(ts, axis=-1)\<close> on matrices: the rows are joined one by one;
  an empty list of tensors, or matrices of different heights, are refused.\<close>

definition join_rows :: "'v list list \<Rightarrow> 'v list list \<Rightarrow> 'v list list" where
  "join_rows t u = map (\<lambda>(x, y). x @ y) (zip t u)"

definition array_ops_concat :: "'v list list list \<Rightarrow> error + 'v list list" where
  "array_ops_concat ts =
     (case ts of
        [] \<Rightarrow> Inl ValueError
      | t # rest \<Rightarrow>
          if list_all (\<lambda>u. length u = length t) rest then Inr (foldl join_rows t rest)
          else Inl InvalidArgumentError)"

text \<open>\<^verbatim>\<open>array_ops.reshape(t, [-1])\<close> on a matrix: its rows one after another.\<close>

definition reshape_flat :: "'v list list \<Rightarrow> 'v list" where
  "reshape_flat t = concat t"

text \<open>\<^verbatim>\<open>tensor_shape.as_shape([n])\<close>: a dimension is not negative.\<close>

definition as_shape1 :: "int \<Rightarrow> error + int" where
  "as_shape1 n = (if n < 0 then Inl ValueError else Inr n)"

definition SparseTensor :: "(int \<times> int) list \<Rightarrow> 'v list \<Rightarrow> int list \<Rightarrow> 'v sparse_tensor" where
  "SparseTensor ixs vs ds = \<lparr>st_indices = ixs, st_values = vs, st_dense_shape = ds\<rparr>"

text \<open>\<^verbatim>\<open>sparse_ops.sparse_reorder\<close>: the entries in row-major order of their indices.\<close>

definition sparse_reorder :: "'v sparse_tensor \<Rightarrow> 'v sparse_tensor" where
  "sparse_reorder sp =
     (let es = sort_key fst (zip (st_indices sp) (st_values sp))
      in sp\<lparr>st_indices := map fst es, st_values := map snd es\<rparr>)"

subsection \<open>The functions of the module\<close>

text \<open>
  \<^verbatim>\<open>_sample(range_max, num_sampled, unique=True, seed=None)\<close>, on arguments that are
  Python integers: the call of the framework's sampler, with \<^verbatim>\<open>num_sampled\<close>,
  \<^verbatim>\<open>unique\<close>, \<^verbatim>\<open>range_max\<close> and \<^verbatim>\<open>seed\<close> in this order.
\<close>

definition sample0 :: "('g, 'v) framework \<Rightarrow> 'g \<Rightarrow> int \<Rightarrow> int \<Rightarrow> bool \<Rightarrow> int option \<Rightarrow> error + int list \<times> 'g" where
  "sample0 fw g range_max num_sampled unique seed =
     uniform_candidate_sampler fw g num_sampled unique range_max seed"

text \<open>
  \<^verbatim>\<open>sample(range_max, num_sampled, batch_size=None, unique=True, seed=None)\<close>. With a
  batch size, each row comes from \<^verbatim>\<open>_sample(range_max, num_sampled)\<close>, that is with
  the defaults \<^verbatim>\<open>unique=True\<close> and \<^verbatim>\<open>seed=None\<close>.
\<close>

definition sample :: "('g, 'v) framework \<Rightarrow> 'g \<Rightarrow> int \<Rightarrow> scalar_arg \<Rightarrow> int option \<Rightarrow> bool \<Rightarrow> int option \<Rightarrow> error + samples \<times> 'g" where
  "sample fw g range_max num_sampled batch_size unique seed =
     err_bind (case num_sampled of
                 PyNum n \<Rightarrow> Inr n
               | TensorConst n \<Rightarrow> Inr n
               | TensorDyn \<Rightarrow> Inl ValueError) (\<lambda>n.
       case batch_size of
         None \<Rightarrow> err_bind (sample0 fw g range_max n unique seed) (\<lambda>(row, g1). Inr (Vec row, g1))
       | Some b \<Rightarrow>
           err_bind (map_fn (\<lambda>_ g0. sample0 fw g0 range_max n True None) (tf_range b) g)
             (\<lambda>(rows, g1). Inr (Mat rows, g1)))"

text \<open>
  \<^verbatim>\<open>sparse_random_normal(dense_shape, density=0.1, mean=0.0, stddev=1, seed=None)\<close>.
\<close>

definition sparse_random_normal :: "('g, 'v) framework \<Rightarrow> 'g \<Rightarrow> int list \<Rightarrow> rat \<Rightarrow> 'v \<Rightarrow> 'v \<Rightarrow> int option \<Rightarrow> error + 'v sparse_tensor" where
  "sparse_random_normal fw g dense_shape density mean stddev seed =
     err_bind (list_getitem dense_shape 1) (\<lambda>m.
       let num_noise = max (py_int (float_mul fw density m)) 1 in
       err_bind (list_getitem dense_shape 1) (\<lambda>range_max.
       err_bind (list_getitem dense_shape 0) (\<lambda>batch_size.
       err_bind (sample fw g range_max (PyNum num_noise) (Some batch_size) True seed)
         (\<lambda>(flat_indices, g1).
       let indices = enum_row fw flat_indices in
       err_bind (list_getitem dense_shape 0) (\<lambda>n.
       err_bind (as_shape1 (n * num_noise)) (\<lambda>value_shape.
       err_bind (random_normal fw g1 value_shape mean stddev seed) (\<lambda>(vals, g2).
         Inr (sparse_reorder (SparseTensor indices vals dense_shape)))))))))"

text \<open>
  \<^verbatim>\<open>salt_pepper_noise(dense_shape, density=0.5, max_value=1, min_value=-1, seed=None)\<close>;
  the result \<open>None\<close> is Python's \<^verbatim>\<open>None\<close>.
\<close>

definition salt_pepper_noise :: "('g, 'v) framework \<Rightarrow> 'g \<Rightarrow> int list \<Rightarrow> rat \<Rightarrow> 'v \<Rightarrow> 'v \<Rightarrow> int option \<Rightarrow> error + 'v sparse_tensor option" where
  "salt_pepper_noise fw g dense_shape density max_value min_value seed =
     err_bind (list_getitem dense_shape 1) (\<lambda>m.
       let num_noise0 = py_int (float_mul fw density m);
           num_noise1 = (if num_noise0 < 2 then 0 else num_noise0)
       in if num_noise1 = 0 then Inr None
          else
            let num_salt = num_noise1 div 2;
                num_pepper = num_salt;
                num_noise = num_salt + num_pepper
            in
            err_bind (list_getitem dense_shape 0) (\<lambda>batch_size.
            err_bind (list_getitem dense_shape 1) (\<lambda>max_range.
            err_bind (sample fw g max_range (PyNum num_noise) (Some batch_size) True seed)
              (\<lambda>(smp, g1).
            let indices = enum_row fw smp in
            err_bind (list_getitem dense_shape 0) (\<lambda>d0.
            err_bind (list_getitem dense_shape 1) (\<lambda>d1.
            err_bind (array_ops_fill [batch_size, num_salt] max_value) (\<lambda>salt_tensor.
            err_bind (array_ops_fill [batch_size, num_pepper] min_value) (\<lambda>pepper_tensor.
            err_bind (array_ops_concat [salt_tensor, pepper_tensor]) (\<lambda>vals2.
              Inr (Some (sparse_reorder
                     (SparseTensor indices (reshape_flat vals2) [d0, d1]))))))))))))"




subsection \<open>What the parameters are expected to do\<close>

text \<open>
  The sampler, asked for \<open>k \<ge> 1\<close> candidates without replacement out of a range of
  \<open>n \<ge> k\<close>, returns \<open>k\<close> distinct numbers from \<open>0\<close> up to \<open>n - 1\<close>.
\<close>

definition sampler_ok :: "('g, 'v) framework \<Rightarrow> bool" where
  "sampler_ok fw =
     (\<forall>g k n seed. 1 \<le> k \<and> k \<le> n \<longrightarrow>
        (\<exists>xs g1. uniform_candidate_sampler fw g k True n seed = Inr (xs, g1)
           \<and> length xs = nat k \<and> distinct xs \<and> (\<forall>x \<in> set xs. 0 \<le> x \<and> x < n)))"

text \<open>\<^verbatim>\<open>random_normal\<close> returns as many values as the shape asks for.\<close>

definition normal_ok :: "('g, 'v) framework \<Rightarrow> bool" where
  "normal_ok fw =
     (\<forall>g n mean stddev seed. 0 \<le> n \<longrightarrow>
        (\<exists>vs g1. random_normal fw g n mean stddev seed = Inr (vs, g1) \<and> length vs = nat n))"


text \<open>
  \<^verbatim>\<open>enum_row\<close> pairs each candidate of a matrix with the number of its row, row after
  row: \<^verbatim>\<open>[[1,2],[2,5]]\<close> becomes \<^verbatim>\<open>[[0,1],[0,2],[1,2],[1,5]]\<close>.
\<close>

definition row_pairs :: "int list list \<Rightarrow> (int \<times> int) list" where
  "row_pairs rows = concat (map (\<lambda>(i, row). map (\<lambda>c. (int i, c)) row) (enumerate 0 rows))"

definition enum_row_ok :: "('g, 'v) framework \<Rightarrow> bool" where
  "enum_row_ok fw = (\<forall>rows. enum_row fw (Mat rows) = row_pairs rows)"

subsection \<open>Reading a sparse tensor\<close>

text \<open>The values stored in row \<open>r\<close>, and how many of them equal \<open>v\<close>.\<close>

definition row_entries :: "'v sparse_tensor \<Rightarrow> int \<Rightarrow> 'v list" where
  "row_entries sp r = map snd (filter (\<lambda>e. fst (fst e) = r) (zip (st_indices sp) (st_values sp)))"

definition row_count :: "'v sparse_tensor \<Rightarrow> int \<Rightarrow> 'v \<Rightarrow> nat" where
  "row_count sp r v = count_list (row_entries sp r) v"

subsection \<open>A deterministic stand-in for the parameters\<close>

text \<open>
  Parameters without randomness, to run the functions on: the product is the exact one
  (as the machine's is on the small binary fractions used below), the sampler returns the
  first \<open>k\<close> numbers of the range and refuses a request for less than one candidate
  or for more than the range holds, the normal values are all the mean, the shuffle
  leaves the list as it is.
\<close>

definition first_k_sampler :: "unit \<Rightarrow> int \<Rightarrow> bool \<Rightarrow> int \<Rightarrow> int option \<Rightarrow> error + int list \<times> unit" where
  "first_k_sampler g k unique n seed =
     (if 1 \<le> k \<and> k \<le> n then Inr (map int [0..<nat k], g) else Inl InvalidArgumentError)"

definition plain_enum_row :: "samples \<Rightarrow> (int \<times> int) list" where
  "plain_enum_row s = (case s of Mat rows \<Rightarrow> row_pairs rows | Vec row \<Rightarrow> row_pairs [row])"

definition plain_framework :: "(unit, rat) framework" where
  "plain_framework =
     \<lparr>float_mul = (\<lambda>x m. x * of_int m),
      uniform_candidate_sampler = first_k_sampler,
      random_normal = (\<lambda>g n mean stddev seed.
        if 0 \<le> n then Inr (replicate (nat n) mean, g) else Inl InvalidArgumentError),
      random_shuffle = (\<lambda>g xs seed. (xs, g)),
      enum_row = plain_enum_row\<rparr>"

section \<open>Properties of the layer classes\<close>

lemmas layer_defs = Layer_init_def Input_init_def wrap_init_def ToSparse_init_def
  GaussianNoise_init_def SaltPepperNoise_init_def err_bind_def py_getattr_def hasattr_def
  getattr_default_kw_def py_getitem_def py_add_str_def py_int_mul_def py_int_def
  array_ops_shape_def math_ops_add_def random_ops_random_normal_def
  array_ops_placeholder_def py_ne_def Let_def

text \<open>No object built by \<^verbatim>\<open>Layer.__init__\<close> has an attribute \<^verbatim>\<open>dense_shape\<close>.\<close>

lemma Layer_init_no_dense_shape:
  "Layer_init n s d dt nm = Inr ob \<Longrightarrow> ob ''dense_shape'' = None"
  by (auto simp: Layer_init_def err_bind_def Let_def split: if_splits sum.splits)

lemma Layer_init_stores_dense_sape:
  "Layer_init n s PyNone dt nm = Inr ob \<Longrightarrow>
     ob ''dense_sape'' = ob ''shape'' \<and> ob ''dense_sape'' \<noteq> None"
  by (auto simp: Layer_init_def Let_def)

lemma wrap_init_y: "wrap_init layer sfx = Inr self \<Longrightarrow> self ''y'' = Some PyNone"
  by (auto simp: wrap_init_def Layer_init_def err_bind_def Let_def split: if_splits sum.splits)

lemma wrap_init_needs_dense_shape:
  "layer ''dense_shape'' = None \<Longrightarrow> isl (wrap_init layer sfx)"
  by (auto simp: wrap_init_def err_bind_def py_getattr_def split: sum.splits option.splits)

text \<open>With a non-zero amount of noise \<^verbatim>\<open>GaussianNoise\<close> raises on every layer.\<close>

lemma GaussianNoise_noisy_raises:
  "noise_amount \<noteq> 0 \<Longrightarrow> isl (GaussianNoise_init layer noise_amount sd seed)"
  by (auto simp: GaussianNoise_init_def err_bind_def Let_def py_getattr_def math_ops_add_def
       dest!: wrap_init_y split: sum.splits option.splits if_splits)

text \<open>With a non-zero amount of noise \<^verbatim>\<open>SaltPepperNoise\<close> raises on every layer that
  has \<^verbatim>\<open>sp_indices\<close>.\<close>

lemma SaltPepperNoise_sparse_raises:
  "noise_amount \<noteq> 0 \<Longrightarrow> hasattr layer ''sp_indices'' \<Longrightarrow>
     isl (SaltPepperNoise_init layer noise_amount mx mn seed)"
  by (auto simp: SaltPepperNoise_init_def err_bind_def Let_def getattr_default_kw_def
       split: sum.splits option.splits if_splits)

text \<open>When a zero-noise wrapper does return, its tensor handle is the wrapped one.\<close>

lemma GaussianNoise_zero_returns:
  "GaussianNoise_init layer 0 sd seed = Inr ob \<Longrightarrow> ob ''y'' = layer ''y'' \<and> layer ''y'' \<noteq> None"
  by (auto simp: GaussianNoise_init_def err_bind_def Let_def py_getattr_def
       split: sum.splits option.splits)

lemma SaltPepperNoise_zero_returns:
  "SaltPepperNoise_init layer 0 mx mn seed = Inr ob \<Longrightarrow>
     ob ''y'' = layer ''y'' \<and> layer ''y'' \<noteq> None"
  by (auto simp: SaltPepperNoise_init_def err_bind_def Let_def py_getattr_def
       split: sum.splits option.splits)

text \<open>
  Claim C1. A constructed layer should expose its shape metadata under the attribute name
  \<^verbatim>\<open>dense_shape\<close>. The object built by \<^verbatim>\<open>Layer(3)\<close> holds the metadata under
  \<^verbatim>\<open>dense_sape\<close> and has no attribute \<^verbatim>\<open>dense_shape\<close>: reading it raises
  \<^verbatim>\<open>AttributeError\<close>, and so does \<^verbatim>\<open>ToSparse(Input(4))\<close>, which reads it.
\<close>

theorem dense_shape_attribute_missing:
  "(case Layer_init (PyInt 3) PyNone PyNone (PyDType Float32) (PyStr ''layer'') of
      Inl e \<Rightarrow> False
    | Inr ob \<Rightarrow>
        py_getattr ob ''dense_shape'' = Inl (AttributeError ''dense_shape'') \<and>
        py_getattr ob ''dense_sape'' = Inr (PyList [PyNone, PyInt 3]))
   \<and> err_bind (Input_init (PyInt 4) PyNone PyNone (PyDType Float32) (PyStr ''input''))
        ToSparse_init = Inl (AttributeError ''dense_shape'')"
  by (simp add: layer_defs)

text \<open>
  Claim C2. Over a layer with \<^verbatim>\<open>sp_indices\<close> and a non-zero amount of noise,
  \<^verbatim>\<open>SaltPepperNoise\<close> should yield a layer whose \<^verbatim>\<open>y\<close> is \<^verbatim>\<open>None\<close>. On the
  concrete sparse layer the constructor yields no layer: it raises \<^verbatim>\<open>TypeError\<close> at
  the keyword call of \<^verbatim>\<open>getattr\<close>, before the assignment of \<^verbatim>\<open>None\<close>.
\<close>

theorem salt_pepper_sparse_raises:
  "SaltPepperNoise_init sparse_layer (1/10) (PyInt 1) (PyInt 0) PyNone = Inl TypeError"
  by (simp add: layer_defs sparse_layer_def dense_layer_def)

text \<open>
  Claim C5. With a non-zero amount of noise \<^verbatim>\<open>GaussianNoise\<close> should expose the wrapped
  tensor plus normal noise. On the concrete dense layer, whose \<^verbatim>\<open>y\<close> is a tensor, the
  constructor adds the noise to its own \<^verbatim>\<open>y\<close>, which is \<^verbatim>\<open>None\<close>, and the
  framework raises \<^verbatim>\<open>ValueError\<close>; on a layer built by \<^verbatim>\<open>Input\<close> it raises
  \<^verbatim>\<open>AttributeError\<close> before that.
\<close>

theorem gaussian_noise_raises:
  "GaussianNoise_init dense_layer (1/10) (PyFloat (1/5)) PyNone = Inl ValueError
   \<and> err_bind (Input_init (PyInt 4) PyNone PyNone (PyDType Float32) (PyStr ''input''))
        (\<lambda>l. GaussianNoise_init l (1/10) (PyFloat (1/5)) PyNone)
      = Inl (AttributeError ''dense_shape'')"
  by (simp add: layer_defs dense_layer_def)

text \<open>
  Claim C6, as stated: for every \<^verbatim>\<open>n_units\<close>, shape and explicit \<^verbatim>\<open>dense_shape\<close>
  the constructor of \<^verbatim>\<open>Layer\<close> raises if and only if \<^verbatim>\<open>dense_shape[1] < n_units\<close>
  or \<^verbatim>\<open>dense_shape[0] != shape[0]\<close>. It fails on \<^verbatim>\<open>Layer(4, [None, 4], [None, None])\<close>:
  the constructor raises \<^verbatim>\<open>TypeError\<close>, from the comparison \<^verbatim>\<open>None < 4\<close>, while neither
  condition is true.
\<close>

theorem Layer_init_uncomparable_raises:
  "Layer_init (PyInt 4) (PyList [PyNone, PyInt 4]) (PyList [PyNone, PyNone])
     (PyDType Float32) (PyStr ''layer'') = Inl TypeError
   \<and> py_lt PyNone (PyInt 4) = Inl TypeError
   \<and> \<not> py_ne PyNone PyNone"
  by (simp add: layer_defs)

text \<open>
  Claim C6, as amended. Let \<^verbatim>\<open>n_units\<close> be a number, the shape a list whose first entry
  is \<^verbatim>\<open>None\<close> or a number, and \<^verbatim>\<open>dense_shape\<close> a list whose first entry is
  \<^verbatim>\<open>None\<close> or a number and whose second entry is a number. Then the constructor of
  \<^verbatim>\<open>Layer\<close> raises exactly when \<^verbatim>\<open>dense_shape[1] < n_units\<close> or
  \<^verbatim>\<open>dense_shape[0] != shape[0]\<close>, with one of its two shape-mismatch exceptions, and
  otherwise returns an object that stores the given \<^verbatim>\<open>dense_shape\<close> unchanged. When the
  shape is omitted, the comparison is with the first entry of the default shape
  \<^verbatim>\<open>[None, n_units]\<close>, which is \<^verbatim>\<open>None\<close>. The two conditions are written with the
  order and the equality of the values, not with the model's own comparisons.
\<close>

theorem Layer_init_validation:
  "isl (Layer_init (pynum n) (PyList (dim s0 # ss)) (PyList (dim d0 # pynum d1 # ds)) dt nm)
     = (num_val d1 < num_val n \<or> map_option num_val d0 \<noteq> map_option num_val s0)
   \<and> (case Layer_init (pynum n) (PyList (dim s0 # ss)) (PyList (dim d0 # pynum d1 # ds)) dt nm of
        Inl e \<Rightarrow> e = PyException ''Shape mismatch: dense_shape[1] < n_units''
               \<or> e = PyException ''Shape mismatch: dense_shape[0] != self.shape[0]''
      | Inr ob \<Rightarrow> ob ''dense_sape'' = Some (PyList (dim d0 # pynum d1 # ds))
               \<and> ob ''shape'' = Some (PyList (dim s0 # ss)))
   \<and> isl (Layer_init (pynum n) PyNone (PyList (dim d0 # pynum d1 # ds)) dt nm)
     = (num_val d1 < num_val n \<or> d0 \<noteq> None)
   \<and> (case Layer_init (pynum n) PyNone (PyList (dim d0 # pynum d1 # ds)) dt nm of
        Inl e \<Rightarrow> e = PyException ''Shape mismatch: dense_shape[1] < n_units''
               \<or> e = PyException ''Shape mismatch: dense_shape[0] != self.shape[0]''
      | Inr ob \<Rightarrow> ob ''dense_sape'' = Some (PyList (dim d0 # pynum d1 # ds))
               \<and> ob ''shape'' = Some (PyList [PyNone, pynum n]))"
proof -
  have lt: "py_lt (pynum d1) (pynum n) = Inr (num_val d1 < num_val n)"
    by (cases d1; cases n) (simp_all add: pynum_def num_val_def)
  have ne: "py_ne (dim d0) (dim s0) = (map_option num_val d0 \<noteq> map_option num_val s0)"
  proof (cases d0)
    case None
    then show ?thesis
      by (cases s0) (auto simp: py_ne_def dim_def pynum_def split: number.splits)
  next
    case (Some x)
    then show ?thesis
      by (cases s0; cases x)
         (auto simp: py_ne_def dim_def pynum_def num_val_def split: number.splits)
  qed
  have ne0: "py_ne (dim d0) PyNone = (d0 \<noteq> None)"
    by (cases d0) (auto simp: py_ne_def dim_def pynum_def split: number.splits)
  have nn: "pynum n \<noteq> PyNone" "PyList xs \<noteq> PyNone" for xs
    by (simp_all add: pynum_def split: number.splits)
  show ?thesis
    by (simp add: Layer_init_def err_bind_def py_getitem_def Let_def lt ne ne0 nn)
qed

theorem Layer_init_validation_witness:
  "\<not> isl (Layer_init (PyInt 4) (PyList [PyNone, PyInt 4]) (PyList [PyNone, PyInt 10])
            (PyDType Float32) (PyStr ''layer''))
   \<and> isl (Layer_init (PyInt 4) (PyList [PyNone, PyInt 4]) (PyList [PyNone, PyInt 3])
            (PyDType Float32) (PyStr ''layer''))
   \<and> isl (Layer_init (PyInt 4) (PyList [PyInt 8, PyInt 4]) (PyList [PyNone, PyInt 10])
            (PyDType Float32) (PyStr ''layer''))
   \<and> \<not> isl (Layer_init (PyInt 4) (PyList [PyInt 8, PyInt 4]) (PyList [PyFloat 8, PyInt 10])
            (PyDType Float32) (PyStr ''layer''))"
  using Layer_init_validation [of "IntNum 4" None "[PyInt 4]" None "IntNum 10" "[]"
          "PyDType Float32" "PyStr ''layer''"]
        Layer_init_validation [of "IntNum 4" None "[PyInt 4]" None "IntNum 3" "[]"
          "PyDType Float32" "PyStr ''layer''"]
        Layer_init_validation [of "IntNum 4" "Some (IntNum 8)" "[PyInt 4]" None "IntNum 10" "[]"
          "PyDType Float32" "PyStr ''layer''"]
        Layer_init_validation [of "IntNum 4" "Some (IntNum 8)" "[PyInt 4]" "Some (FloatNum 8)"
          "IntNum 10" "[]" "PyDType Float32" "PyStr ''layer''"]
  by (simp add: dim_def pynum_def num_val_def)

text \<open>
  Claim C9. With an amount of noise of exactly 0.0 the two noise layers should hand on the
  wrapped layer's tensor. On the layer built by \<^verbatim>\<open>Input(4)\<close> both constructors raise
  \<^verbatim>\<open>AttributeError\<close> instead, reading \<^verbatim>\<open>layer.dense_shape\<close>.
\<close>

theorem zero_noise_raises_on_input:
  "err_bind (Input_init (PyInt 4) PyNone PyNone (PyDType Float32) (PyStr ''input''))
     (\<lambda>l. GaussianNoise_init l 0 (PyFloat (1/5)) PyNone) = Inl (AttributeError ''dense_shape'')
   \<and> err_bind (Input_init (PyInt 4) PyNone PyNone (PyDType Float32) (PyStr ''input''))
     (\<lambda>l. SaltPepperNoise_init l 0 (PyInt 1) (PyInt 0) PyNone)
       = Inl (AttributeError ''dense_shape'')"
  by (simp add: layer_defs)

section \<open>Properties of the random sparse tensors\<close>

subsection \<open>The stand-in meets what is expected of the parameters\<close>

lemma plain_sampler_ok: "sampler_ok plain_framework"
  by (auto simp: sampler_ok_def plain_framework_def first_k_sampler_def distinct_map inj_on_def)

lemma plain_normal_ok: "normal_ok plain_framework"
  by (simp add: normal_ok_def plain_framework_def)


lemma plain_enum_row_ok: "enum_row_ok plain_framework"
  by (simp add: enum_row_ok_def plain_framework_def plain_enum_row_def)

lemma plain_float_mul: "float_mul plain_framework x m = x * of_int m"
  by (simp add: plain_framework_def)

text \<open>
  No sampler can return more distinct candidates than the range holds, so a request
  for more cannot be served.
\<close>

lemma no_more_distinct_than_range:
  assumes "distinct xs" and "\<forall>x \<in> set xs. 0 \<le> x \<and> x < n"
  shows "length xs \<le> nat n"
proof -
  have "set xs \<subseteq> {0..<n}" using assms(2) by auto
  then have "card (set xs) \<le> card {0..<n}" by (intro card_mono) simp_all
  then show ?thesis using assms(1) by (simp add: distinct_card)
qed

subsection \<open>Sampling\<close>

lemma map_fn_sample0:
  assumes "sampler_ok fw" "1 \<le> k" "k \<le> n"
  shows "\<exists>rows g1. map_fn (\<lambda>_ g0. sample0 fw g0 n k True None) es g = Inr (rows, g1)
           \<and> length rows = length es
           \<and> (\<forall>row \<in> set rows. length row = nat k \<and> distinct row \<and> (\<forall>x \<in> set row. 0 \<le> x \<and> x < n))"
proof (induction es arbitrary: g)
  case Nil
  then show ?case by simp
next
  case (Cons e es)
  from assms obtain xs g1 where
    s: "uniform_candidate_sampler fw g k True n None = Inr (xs, g1)"
       "length xs = nat k" "distinct xs" "\<forall>x \<in> set xs. 0 \<le> x \<and> x < n"
    unfolding sampler_ok_def by blast
  from Cons.IH [of g1] obtain rows g2 where
    r: "map_fn (\<lambda>_ g0. sample0 fw g0 n k True None) es g1 = Inr (rows, g2)"
       "length rows = length es"
       "\<forall>row \<in> set rows. length row = nat k \<and> distinct row \<and> (\<forall>x \<in> set row. 0 \<le> x \<and> x < n)"
    by blast
  show ?case using s r by (simp add: err_bind_def sample0_def)
qed

lemma sample_batch:
  assumes "sampler_ok fw" "1 \<le> k" "k \<le> n"
  shows "\<exists>rows g1. sample fw g n (PyNum k) (Some b) u seed = Inr (Mat rows, g1)
           \<and> length rows = nat b
           \<and> (\<forall>row \<in> set rows. length row = nat k \<and> distinct row \<and> (\<forall>x \<in> set row. 0 \<le> x \<and> x < n))"
  using map_fn_sample0 [OF assms, of "tf_range b" g]
  by (auto simp: sample_def err_bind_def tf_range_def)

subsection \<open>Rows of a sparse tensor\<close>

text \<open>
  Reordering permutes the entries: the values of a row are the same multiset before and
  after.
\<close>

lemma mset_row_entries_reorder:
  "mset (row_entries (sparse_reorder sp) r) = mset (row_entries sp r)"
  by (simp add: row_entries_def sparse_reorder_def Let_def zip_map_fst_snd)

lemma row_count_reorder: "row_count (sparse_reorder sp) r v = row_count sp r v"
  unfolding row_count_def by (metis count_mset mset_row_entries_reorder)

lemma length_row_entries_reorder:
  "length (row_entries (sparse_reorder sp) r) = length (row_entries sp r)"
  by (metis mset_row_entries_reorder size_mset)

lemma set_values_reorder: "set (st_values (sparse_reorder sp)) \<subseteq> set (st_values sp)"
  by (auto simp: sparse_reorder_def Let_def dest: set_zip_rightD)

lemma length_values_reorder:
  "length (st_indices sp) = length (st_values sp) \<Longrightarrow>
   length (st_values (sparse_reorder sp)) = length (st_values sp)"
  by (simp add: sparse_reorder_def Let_def)

text \<open>
  When the index pairs come from \<open>row_pairs\<close> and the values from a matrix with rows of
  the same lengths, the values of row \<open>r\<close> of the tensor are row \<open>r\<close> of the matrix.
\<close>

lemma filter_row_zip_same:
  "length s = length v \<Longrightarrow>
   map snd (filter (\<lambda>e. fst (fst e) = r) (zip (map (\<lambda>c. (i, c)) s) v)) = (if i = r then v else [])"
  by (induction s v rule: list_induct2) auto

lemma row_entries_enumerate:
  "list_all2 (\<lambda>s v. length s = length v) S V \<Longrightarrow>
   map snd (filter (\<lambda>e. fst (fst e) = int r)
     (zip (concat (map (\<lambda>(i, row). map (\<lambda>c. (int i, c)) row) (enumerate off S))) (concat V)))
   = (if off \<le> r \<and> r < off + length S then V ! (r - off) else [])"
proof (induction S V arbitrary: off rule: list_all2_induct)
  case Nil
  then show ?case by auto
next
  case (Cons s S v V)
  have "map snd (filter (\<lambda>e. fst (fst e) = int r)
     (zip (concat (map (\<lambda>(i, row). map (\<lambda>c. (int i, c)) row) (enumerate off (s # S)))) (concat (v # V))))
     = map snd (filter (\<lambda>e. fst (fst e) = int r) (zip (map (\<lambda>c. (int off, c)) s) v))
       @ map snd (filter (\<lambda>e. fst (fst e) = int r)
           (zip (concat (map (\<lambda>(i, row). map (\<lambda>c. (int i, c)) row) (enumerate (Suc off) S))) (concat V)))"
    using Cons.hyps(1) by (simp add: zip_append)
  also have "\<dots> = (if int off = int r then v else [])
       @ (if Suc off \<le> r \<and> r < Suc off + length S then V ! (r - Suc off) else [])"
    using Cons.hyps(1) Cons.IH [of "Suc off"] by (simp only: filter_row_zip_same)
  also have "\<dots> = (if off \<le> r \<and> r < off + length (s # S) then (v # V) ! (r - off) else [])"
    by (auto simp: nth_Cons' Suc_diff_Suc)
  finally show ?case .
qed

lemma row_entries_row_pairs:
  assumes "list_all2 (\<lambda>s v. length s = length v) S V" "r < length S"
  shows "row_entries (SparseTensor (row_pairs S) (concat V) ds) (int r) = V ! r"
  using row_entries_enumerate [OF assms(1), of r 0] assms(2)
  by (simp add: row_entries_def SparseTensor_def row_pairs_def)

lemma length_row_pairs_const:
  "\<forall>row \<in> set S. length row = k \<Longrightarrow> length (row_pairs S) = length S * k"
proof -
  have "\<forall>row \<in> set S. length row = k \<Longrightarrow>
        length (concat (map (\<lambda>(i, row). map (\<lambda>c. (int i, c)) row) (enumerate off S))) = length S * k" for off
    by (induction S arbitrary: off) auto
  then show "\<forall>row \<in> set S. length row = k \<Longrightarrow> length (row_pairs S) = length S * k"
    by (simp add: row_pairs_def)
qed

lemma filter_row_enumerate:
  "length (filter (\<lambda>ix. fst ix = int r)
     (concat (map (\<lambda>(i, row). map (\<lambda>c. (int i, c)) row) (enumerate off S))))
   = (if off \<le> r \<and> r < off + length S then length (S ! (r - off)) else 0)"
proof (induction S arbitrary: off)
  case Nil
  then show ?case by auto
next
  case (Cons s S)
  have "filter (\<lambda>ix. fst ix = int r) (map (\<lambda>c. (int off, c)) s)
          = (if off = r then map (\<lambda>c. (int off, c)) s else [])"
    by (induction s) auto
  then show ?case using Cons.IH [of "Suc off"]
    by (auto simp: nth_Cons' Suc_diff_Suc)
qed

lemma length_row_entries_indices:
  assumes "length (st_indices sp) = length (st_values sp)"
  shows "length (row_entries sp r) = length (filter (\<lambda>ix. fst ix = r) (st_indices sp))"
proof -
  have "length (filter (\<lambda>e. fst (fst e) = r) (zip (st_indices sp) (st_values sp)))
          = length (filter (\<lambda>ix. fst ix = r) (map fst (zip (st_indices sp) (st_values sp))))"
    by (simp add: filter_map comp_def)
  then show ?thesis using assms by (simp add: row_entries_def)
qed

lemma count_list_replicate: "count_list (replicate n x) y = (if x = y then n else 0)"
  by (induction n) auto

subsection \<open>The loop of the random mask\<close>












subsection \<open>The functions on a matrix of N by M\<close>

lemma salt_pepper_noise_unfold:
  assumes "2 \<le> py_int (float_mul fw density (int M))"
    and "sample fw g (int M) (PyNum (py_int (float_mul fw density (int M)) div 2 + py_int (float_mul fw density (int M)) div 2))
           (Some (int N)) True seed = Inr (Mat rows, g1)"
  shows "salt_pepper_noise fw g [int N, int M] density mx mn seed =
     Inr (Some (sparse_reorder (SparseTensor (enum_row fw (Mat rows))
        (concat (replicate N (replicate (nat (py_int (float_mul fw density (int M)) div 2)) mx
                             @ replicate (nat (py_int (float_mul fw density (int M)) div 2)) mn)))
        [int N, int M])))"
  using assms
  by (simp add: salt_pepper_noise_def list_getitem_def err_bind_def Let_def array_ops_fill_def
      array_ops_concat_def join_rows_def reshape_flat_def zip_replicate)

lemma sparse_random_normal_unfold:
  assumes "sample fw g (int M) (PyNum (max (py_int (float_mul fw density (int M))) 1))
             (Some (int N)) True seed = Inr (Mat rows, g1)"
    and "random_normal fw g1 (int N * max (py_int (float_mul fw density (int M))) 1) mean stddev seed
           = Inr (vs, g2)"
  shows "sparse_random_normal fw g [int N, int M] density mean stddev seed
           = Inr (sparse_reorder (SparseTensor (enum_row fw (Mat rows)) vs [int N, int M]))"
proof -
  have "0 \<le> int N * max (py_int (float_mul fw density (int M))) 1"
    by (intro mult_nonneg_nonneg) simp_all
  then have "\<not> int N * max (py_int (float_mul fw density (int M))) 1 < 0"
    by (simp only: not_less)
  then have "as_shape1 (int N * max (py_int (float_mul fw density (int M))) 1)
               = Inr (int N * max (py_int (float_mul fw density (int M))) 1)"
    unfolding as_shape1_def by (simp only: if_False)
  then show ?thesis using assms
    by (simp add: sparse_random_normal_def list_getitem_def err_bind_def Let_def)
qed


subsection \<open>The claims\<close>

text \<open>
  Claim C3, as stated: for every dense shape \<^verbatim>\<open>[N, M]\<close> and every density with
  \<^verbatim>\<open>int(density * M) >= 2\<close>, \<^verbatim>\<open>salt_pepper_noise\<close> produces a tensor with
  \<^verbatim>\<open>int(density * M) // 2\<close> salt entries and as many pepper entries in each row. It
  fails for the shape \<^verbatim>\<open>[1, 2]\<close> and the density 2.0: the function asks for four
  distinct columns out of two, which the sampler refuses, and no tensor results.
\<close>

theorem salt_pepper_noise_overfull:
  "salt_pepper_noise plain_framework () [1, 2] 2 1 (-1) None = Inl InvalidArgumentError
   \<and> 2 \<le> py_int (float_mul plain_framework 2 2)"
  by code_simp

text \<open>
  Claim C3, as amended. Let the sampler and \<^verbatim>\<open>enum_row\<close> do what is expected of them,
  let \<open>t = int(density * M)\<close> be at least 2, and let the \<open>2 * (t // 2)\<close> entries
  fit into a row of \<open>M\<close> columns. Then \<^verbatim>\<open>salt_pepper_noise\<close> returns a sparse tensor
  whose values are all \<^verbatim>\<open>max_value\<close> or \<^verbatim>\<open>min_value\<close>, and each of its \<open>N\<close> rows
  holds \<open>t // 2\<close> copies of \<^verbatim>\<open>max_value\<close> and \<open>t // 2\<close> copies of
  \<^verbatim>\<open>min_value\<close>: when the two constants differ, each occurs \<open>t // 2\<close> times in the
  row.
\<close>

theorem salt_pepper_noise_symmetric:
  assumes "sampler_ok fw" and "enum_row_ok fw"
    and "2 \<le> py_int (float_mul fw density (int M))"
    and "2 * (py_int (float_mul fw density (int M)) div 2) \<le> int M"
  shows "\<exists>sp. salt_pepper_noise fw g [int N, int M] density max_value min_value seed = Inr (Some sp)
     \<and> set (st_values sp) \<subseteq> {max_value, min_value}
     \<and> (\<forall>r<N. mset (row_entries sp (int r))
           = replicate_mset (nat (py_int (float_mul fw density (int M)) div 2)) max_value
             + replicate_mset (nat (py_int (float_mul fw density (int M)) div 2)) min_value)
     \<and> (\<forall>r<N. max_value \<noteq> min_value \<longrightarrow>
           row_count sp (int r) max_value = nat (py_int (float_mul fw density (int M)) div 2)
         \<and> row_count sp (int r) min_value = nat (py_int (float_mul fw density (int M)) div 2))"
proof -
  define t where "t = py_int (float_mul fw density (int M))"
  define k where "k = nat (t div 2)"
  define row where "row = replicate k max_value @ replicate k min_value"
  have t2: "2 \<le> t" and tM: "t div 2 + t div 2 \<le> int M"
    using assms(3,4) by (simp_all add: t_def)
  have k0: "1 \<le> t div 2 + t div 2" using t2 by linarith
  obtain rows g1 where
    s: "sample fw g (int M) (PyNum (t div 2 + t div 2)) (Some (int N)) True seed = Inr (Mat rows, g1)"
    and len: "length rows = N"
    and rws: "\<forall>rw \<in> set rows. length rw = nat (t div 2 + t div 2)"
    using sample_batch [OF assms(1) k0 tM, of g "int N" True seed] by auto
  define sp0 where "sp0 = SparseTensor (row_pairs rows) (concat (replicate N row)) [int N, int M]"
  have res: "salt_pepper_noise fw g [int N, int M] density max_value min_value seed
               = Inr (Some (sparse_reorder sp0))"
    using salt_pepper_noise_unfold [OF assms(3) s [unfolded t_def], of max_value min_value] assms(2)
    by (simp add: sp0_def row_def k_def t_def enum_row_ok_def)
  have lrow: "length row = nat (t div 2 + t div 2)"
    using t2 by (simp add: row_def k_def nat_add_distrib)
  have la2: "list_all2 (\<lambda>s v. length s = length v) rows (replicate N row)"
    using len rws lrow by (auto simp: list_all2_conv_all_nth)
  have ent: "row_entries sp0 (int r) = row" if "r < N" for r
    using row_entries_row_pairs [OF la2, of r "[int N, int M]"] that len
    by (simp add: sp0_def)
  have vals: "set (st_values (sparse_reorder sp0)) \<subseteq> {max_value, min_value}"
  proof -
    have "set (st_values sp0) \<subseteq> {max_value, min_value}"
      by (auto simp: sp0_def SparseTensor_def row_def split: if_splits)
    then show ?thesis using set_values_reorder [of sp0] by blast
  qed
  have m: "mset (row_entries (sparse_reorder sp0) (int r))
             = replicate_mset k max_value + replicate_mset k min_value" if "r < N" for r
    using ent [OF that] by (simp add: mset_row_entries_reorder row_def)
  have c: "row_count (sparse_reorder sp0) (int r) max_value = k
         \<and> row_count (sparse_reorder sp0) (int r) min_value = k"
    if "r < N" "max_value \<noteq> min_value" for r
  proof -
    have "row_count sp0 (int r) max_value = k \<and> row_count sp0 (int r) min_value = k"
      using ent [OF that(1)] that(2) by (simp add: row_count_def row_def count_list_replicate)
    then show ?thesis by (simp only: row_count_reorder)
  qed
  show ?thesis
    using res vals m c unfolding k_def t_def by blast
qed

theorem salt_pepper_noise_symmetric_witness:
  "\<exists>sp. salt_pepper_noise plain_framework () [2, 4] (1/2) 1 (-1) None = Inr (Some sp)
     \<and> set (st_values sp) \<subseteq> {1, -1}
     \<and> row_count sp 0 1 = 1 \<and> row_count sp 0 (-1) = 1
     \<and> row_count sp 1 1 = 1 \<and> row_count sp 1 (-1) = 1"
proof -
  have t: "py_int (float_mul plain_framework (1/2) 4) = 2"
    by (simp add: plain_float_mul py_int_def)
  have h3: "2 \<le> py_int (float_mul plain_framework (1/2) (int 4))"
    and h4: "2 * (py_int (float_mul plain_framework (1/2) (int 4)) div 2) \<le> int 4"
    by (simp_all add: t)
  from salt_pepper_noise_symmetric [OF plain_sampler_ok plain_enum_row_ok h3 h4, of "()" 2 1 "-1" None]
  obtain sp where
    r: "salt_pepper_noise plain_framework () [2, 4] (1/2) 1 (-1) None = Inr (Some sp)"
    and v: "set (st_values sp) \<subseteq> {1, -1}"
    and c: "\<forall>r<2. row_count sp (int r) 1 = 1 \<and> row_count sp (int r) (-1) = 1"
    by (auto simp: t)
  from c [THEN spec, of 0] c [THEN spec, of 1]
  have "row_count sp 0 1 = 1 \<and> row_count sp 0 (-1) = 1
      \<and> row_count sp 1 1 = 1 \<and> row_count sp 1 (-1) = 1"
    by simp
  with r v show ?thesis by auto
qed







text \<open>
  Claim C8. For every dense shape \<^verbatim>\<open>[N, M]\<close> and every density,
  \<^verbatim>\<open>salt_pepper_noise\<close> returns \<^verbatim>\<open>None\<close> if and only if
  \<^verbatim>\<open>int(density * M) < 2\<close>; whatever the parameters of the model do.
\<close>

theorem salt_pepper_noise_none_iff: "salt_pepper_noise fw g [N, M] density max_value min_value seed = Inr None
   \<longleftrightarrow> py_int (float_mul fw density M) < 2"
  by (auto simp: salt_pepper_noise_def list_getitem_def err_bind_def Let_def
        split: sum.splits prod.splits)

theorem salt_pepper_noise_none_iff_witness:
  "salt_pepper_noise plain_framework () [2, 4] (1/4) 1 (-1) None = Inr None
   \<and> salt_pepper_noise plain_framework () [2, 4] (1/2) 1 (-1) None \<noteq> Inr None"
  using salt_pepper_noise_none_iff [of plain_framework "()" 2 4 "1/4" 1 "-1" None]
        salt_pepper_noise_none_iff [of plain_framework "()" 2 4 "1/2" 1 "-1" None]
  by (simp add: plain_float_mul py_int_def)

text \<open>
  Claim C10, as stated: for every dense shape \<^verbatim>\<open>[N, M]\<close> and every density the tensor
  of \<^verbatim>\<open>sparse_random_normal\<close> has \<^verbatim>\<open>N * max(int(density * M), 1)\<close> values and is
  never empty. It fails for the shape \<^verbatim>\<open>[0, 4]\<close>, where the tensor is empty, and for
  the shape \<^verbatim>\<open>[2, 2]\<close> with the density 2.0, where four distinct columns out of two
  are asked for and no tensor results.
\<close>

theorem sparse_random_normal_empty:
  "sparse_random_normal plain_framework () [0, 4] (1/2) 0 1 None
     = Inr \<lparr>st_indices = [], st_values = [], st_dense_shape = [0, 4]\<rparr>
   \<and> sparse_random_normal plain_framework () [2, 2] 2 0 1 None = Inl InvalidArgumentError"
  by code_simp

text \<open>
  Claim C10, as amended. Let the sampler, \<^verbatim>\<open>random_normal\<close> and \<^verbatim>\<open>enum_row\<close> do
  what is expected of them, and let \<open>k = max(int(density * M), 1)\<close> be at most
  \<open>M\<close>. Then \<^verbatim>\<open>sparse_random_normal\<close> returns a sparse tensor with exactly
  \<open>N * k\<close> values, at least \<open>N\<close>, of which \<open>k\<close> are in each row; it is
  not empty when \<open>N\<close> is at least 1. This holds for the density 0 as for any other
  density that rounds to no entry.
\<close>

theorem sparse_random_normal_count:
  assumes "sampler_ok fw" and "normal_ok fw" and "enum_row_ok fw"
    and "max (py_int (float_mul fw density (int M))) 1 \<le> int M"
  shows "\<exists>sp. sparse_random_normal fw g [int N, int M] density mean stddev seed = Inr sp
     \<and> length (st_values sp) = N * nat (max (py_int (float_mul fw density (int M))) 1)
     \<and> N \<le> length (st_values sp)
     \<and> (0 < N \<longrightarrow> st_values sp \<noteq> [])
     \<and> (\<forall>r<N. length (row_entries sp (int r)) = nat (max (py_int (float_mul fw density (int M))) 1))"
proof -
  define k where "k = max (py_int (float_mul fw density (int M))) 1"
  have k1: "1 \<le> k" "0 \<le> k" by (simp_all add: k_def)
  have kM: "k \<le> int M" using assms(4) by (simp add: k_def)
  obtain rows g1 where
    s: "sample fw g (int M) (PyNum k) (Some (int N)) True seed = Inr (Mat rows, g1)"
    and len: "length rows = N"
    and rws: "\<forall>rw \<in> set rows. length rw = nat k"
    using sample_batch [OF assms(1) k1(1) kM, of g "int N" True seed] by auto
  have "0 \<le> int N * k" using k1 by simp
  then obtain vs g2 where
    n: "random_normal fw g1 (int N * k) mean stddev seed = Inr (vs, g2)"
    and lvs: "length vs = nat (int N * k)"
    using assms(2) unfolding normal_ok_def by blast
  define sp0 where "sp0 = SparseTensor (row_pairs rows) vs [int N, int M]"
  have res: "sparse_random_normal fw g [int N, int M] density mean stddev seed
               = Inr (sparse_reorder sp0)"
    using sparse_random_normal_unfold [OF s [unfolded k_def] n [unfolded k_def]] assms(3)
    by (simp add: sp0_def enum_row_ok_def)
  have lv: "length vs = N * nat k"
    using lvs k1 by (simp add: nat_mult_distrib)
  have li: "length (st_indices sp0) = length (st_values sp0)"
    using length_row_pairs_const [OF rws] len lv by (simp add: sp0_def SparseTensor_def)
  have l1: "length (st_values (sparse_reorder sp0)) = N * nat k"
    using length_values_reorder [OF li] lv by (simp add: sp0_def SparseTensor_def)
  have kpos: "0 < nat k" using k1 by simp
  have "N * 1 \<le> N * nat k"
    using kpos by (intro mult_le_mono2) simp
  then have l2: "N \<le> length (st_values (sparse_reorder sp0))"
    using l1 by simp
  have l3: "0 < N \<longrightarrow> st_values (sparse_reorder sp0) \<noteq> []"
    using l2 by auto
  have l4: "length (row_entries (sparse_reorder sp0) (int r)) = nat k" if "r < N" for r
  proof -
    have "length (row_entries sp0 (int r)) = length (rows ! r)"
      using length_row_entries_indices [OF li, of "int r"] filter_row_enumerate [of r 0 rows] that len
      by (simp add: sp0_def SparseTensor_def row_pairs_def)
    then show ?thesis using rws that len by (simp add: length_row_entries_reorder)
  qed
  show ?thesis using res l1 l2 l3 l4 unfolding k_def by blast
qed

theorem sparse_random_normal_count_witness:
  "\<exists>sp. sparse_random_normal plain_framework () [2, 4] 0 0 1 None = Inr sp
     \<and> length (st_values sp) = 2 \<and> st_values sp \<noteq> []
     \<and> length (row_entries sp 0) = 1 \<and> length (row_entries sp 1) = 1"
proof -
  have t: "py_int (float_mul plain_framework 0 4) = 0"
    by (simp add: plain_float_mul py_int_def)
  have h: "max (py_int (float_mul plain_framework 0 (int 4))) 1 \<le> int 4"
    by (simp add: t)
  from sparse_random_normal_count [OF plain_sampler_ok plain_normal_ok plain_enum_row_ok h,
         of "()" 2 0 1 None]
  obtain sp where
    r: "sparse_random_normal plain_framework () [2, 4] 0 0 1 None = Inr sp"
    and l: "length (st_values sp) = 2"
    and e: "st_values sp \<noteq> []"
    and c: "\<forall>r<2. length (row_entries sp (int r)) = 1"
    by (auto simp: t)
  from c [THEN spec, of 0] c [THEN spec, of 1]
  have "length (row_entries sp 0) = 1 \<and> length (row_entries sp 1) = 1"
    by simp
  with r l e show ?thesis by auto
qed

end
